theory Spec2Isabelle
  imports Main "HOL-Library.Log_Nat" "HOL-Library.Stream"
begin

section \<open>JavaScript numbers\<close>

text \<open>
  A JavaScript Number is an IEEE 754 binary64 value. The finite ones are rationals, so
  the model carries a rational and rounds the result of every arithmetic operation to
  the nearest binary64 value, ties to the even significand, as the language does.
  Negative zero is identified with zero: the middleware never distinguishes them
  (both are falsy, both compare equal).
\<close>

datatype number = Finite rat | NaN | PosInf | NegInf

definition pow2 :: "int \<Rightarrow> rat" where
  "pow2 e = (if 0 \<le> e then 2 ^ nat e else 1 / 2 ^ nat (- e))"

text \<open>For \<open>x > 0\<close>, the exponent \<open>k\<close> with \<open>2 ^ k \<le> x < 2 ^ (k + 1)\<close>.\<close>

definition floor_log2 :: "rat \<Rightarrow> int" where
  "floor_log2 x =
     (if 1 \<le> x then bitlen \<lfloor>x\<rfloor> - 1
      else - bitlen (\<lceil>1 / x\<rceil> - 1))"

text \<open>
  Rounding to binary64. A finite binary64 value is a multiple of its spacing
  \<open>2 ^ e\<close>, where \<open>e\<close> is the exponent of the value's binade minus the 52 fraction
  bits, and never below \<open>- 1074\<close> (subnormal numbers).
\<close>

definition spacing_exponent :: "rat \<Rightarrow> int" where
  "spacing_exponent x = max (floor_log2 \<bar>x\<bar> - 52) (- 1074)"

text \<open>The multiple of \<open>2 ^ e\<close> nearest to \<open>x\<close>; of two equally near, the even multiple.\<close>

definition round_to_spacing :: "int \<Rightarrow> rat \<Rightarrow> rat" where
  "round_to_spacing e x =
     (let q = x / pow2 e;
          n = \<lfloor>q\<rfloor>;
          f = q - of_int n;
          m = (if f < 1 / 2 then n
               else if 1 / 2 < f then n + 1
               else if even n then n else n + 1)
      in of_int m * pow2 e)"

text \<open>A result of magnitude \<open>2 ^ 1024\<close> or more overflows to an infinity.\<close>

definition fround :: "rat \<Rightarrow> number" where
  "fround x =
     (if x = 0 then Finite 0
      else
        let y = round_to_spacing (spacing_exponent x) x
        in if 2 ^ 1024 \<le> \<bar>y\<bar> then (if 0 < x then PosInf else NegInf) else Finite y)"

fun num_neg :: "number \<Rightarrow> number" where
  "num_neg (Finite a) = Finite (- a)"
| "num_neg NaN = NaN"
| "num_neg PosInf = NegInf"
| "num_neg NegInf = PosInf"

fun num_add :: "number \<Rightarrow> number \<Rightarrow> number" where
  "num_add (Finite a) (Finite b) = fround (a + b)"
| "num_add NaN _ = NaN"
| "num_add _ NaN = NaN"
| "num_add PosInf NegInf = NaN"
| "num_add NegInf PosInf = NaN"
| "num_add PosInf _ = PosInf"
| "num_add _ PosInf = PosInf"
| "num_add NegInf _ = NegInf"
| "num_add _ NegInf = NegInf"

text \<open>The language defines \<open>x - y\<close> as \<open>x + (- y)\<close>.\<close>

definition num_sub :: "number \<Rightarrow> number \<Rightarrow> number" where
  "num_sub x y = num_add x (num_neg y)"

fun num_sign :: "number \<Rightarrow> int" where
  "num_sign (Finite a) = (if a < 0 then - 1 else if a = 0 then 0 else 1)"
| "num_sign NaN = 0"
| "num_sign PosInf = 1"
| "num_sign NegInf = - 1"

fun num_mul :: "number \<Rightarrow> number \<Rightarrow> number" where
  "num_mul (Finite a) (Finite b) = fround (a * b)"
| "num_mul NaN _ = NaN"
| "num_mul _ NaN = NaN"
| "num_mul x y =
     (if num_sign x * num_sign y = 0 then NaN
      else if 0 < num_sign x * num_sign y then PosInf else NegInf)"

text \<open>\<open>x < y\<close> on numbers: false whenever an operand is NaN.\<close>

fun num_less :: "number \<Rightarrow> number \<Rightarrow> bool" where
  "num_less (Finite a) (Finite b) = (a < b)"
| "num_less NaN _ = False"
| "num_less _ NaN = False"
| "num_less PosInf _ = False"
| "num_less _ NegInf = False"
| "num_less _ PosInf = True"
| "num_less NegInf _ = True"

fun Math_floor :: "number \<Rightarrow> number" where
  "Math_floor (Finite a) = Finite (of_int \<lfloor>a\<rfloor>)"
| "Math_floor x = x"

text \<open>Truthiness of a number: \<open>0\<close> and NaN are falsy.\<close>

fun number_truthy :: "number \<Rightarrow> bool" where
  "number_truthy (Finite a) = (a \<noteq> 0)"
| "number_truthy NaN = False"
| "number_truthy _ = True"

section \<open>Strings and request values\<close>

text \<open>
  \<open>String.prototype.toUpperCase\<close> is the language's Unicode case mapping; its table
  is no part of the repository. The middleware is therefore modelled for an arbitrary
  function \<open>toUpperCase\<close> on strings, which it takes as its first argument, and every
  theorem below holds for whatever that function is.

  \<open>ascii_upper\<close> is the value of \<open>toUpperCase\<close> on strings of ASCII characters,
  where the mapping takes \<open>a..z\<close> to \<open>A..Z\<close> and leaves the rest. It stands for
  the language's function in the examples only, all of them on ASCII method names.
\<close>

definition upper_char :: "char \<Rightarrow> char" where
  "upper_char c =
     (case map_of (zip ''abcdefghijklmnopqrstuvwxyz'' ''ABCDEFGHIJKLMNOPQRSTUVWXYZ'') c of
        None \<Rightarrow> c
      | Some u \<Rightarrow> u)"

definition ascii_upper :: "string \<Rightarrow> string" where
  "ascii_upper s = map upper_char s"

text \<open>The values a parsed query string can hold (\<open>Record<string, any>\<close>).\<close>

datatype jsvalue = JString string | JBool bool | JNumber number | JArray "jsvalue list"

type_synonym json_object = "(string \<times> jsvalue) list"

section \<open>Options, requests and the world\<close>

text \<open>
  \<open>latency?: number | [number, number]\<close>. An absent optional field is \<open>None\<close>.
\<close>

datatype latency_option = Fixed number | Range number number

text \<open>
  \<open>ChaosError\<close>: the code reads both fields defensively (\<open>customError?.status || 500\<close>,
  \<open>if(body)\<close>), so both may be absent.
\<close>

record ChaosError =
  status :: "number option"
  body :: "json_object option"

text \<open>
  \<open>ChaosOptions\<close> of src/src/index.ts has the first two fields; \<open>ChaosOptions\<close> of
  the later version (src/unnamed/part_001) extends it with three more.
\<close>

record ChaosOptions_index =
  latency :: "latency_option option"
  errorRate :: "number option"

record ChaosOptions = ChaosOptions_index +
  error :: "ChaosError option"
  methods :: "string list option"
  activationKeyword :: "string option"

text \<open>
  \<open>GenericRequest\<close>: the two fields the middleware reads; a request object has others
  (the record is extensible).
\<close>

record GenericRequest =
  req_method :: "string option"
  query :: "(string \<rightharpoonup> jsvalue) option"

text \<open>
  What one invocation does to its collaborators, in order: calls on the response
  object, the call of \<open>next\<close>, and the awaited \<open>delay(ms)\<close>.
\<close>

datatype call = Next | ResStatus number | ResJson json_object | ResEnd | Delay number

datatype log_message = LogActivated string | LogInjecting | LogDelaying number

text \<open>
  The state outside an invocation: the generator behind \<open>Math.random()\<close>, as the
  stream of samples it will return, and what has been written to the console.
\<close>

record world =
  rng :: "rat stream"
  console :: "log_message list"

definition Math_random :: "world \<Rightarrow> number \<times> world" where
  "Math_random w = (Finite (shd (rng w)), w\<lparr>rng := stl (rng w)\<rparr>)"

definition console_log :: "log_message \<Rightarrow> world \<Rightarrow> world" where
  "console_log m w = w\<lparr>console := console w @ [m]\<rparr>"

section \<open>The middleware of src/unnamed/part_001\<close>

text \<open>
  Lines 74-79: with a truthy (non-empty) \<open>activationKeyword\<close>, the request passes
  through unless \<open>req.query\<close> is there and maps the keyword to the string \<open>'true'\<close>.
\<close>

definition activation_gate_blocks :: "ChaosOptions \<Rightarrow> 'r GenericRequest_scheme \<Rightarrow> bool" where
  "activation_gate_blocks options req =
     (case activationKeyword options of
        None \<Rightarrow> False
      | Some kw \<Rightarrow>
          kw \<noteq> [] \<and>
          (case query req of
             None \<Rightarrow> True
           | Some q \<Rightarrow> q kw \<noteq> Some (JString ''true'')))"

definition log_activation :: "ChaosOptions \<Rightarrow> world \<Rightarrow> world" where
  "log_activation options w =
     (case activationKeyword options of
        None \<Rightarrow> w
      | Some kw \<Rightarrow> if kw \<noteq> [] then console_log (LogActivated kw) w else w)"

text \<open>Lines 82-88: the method filter.\<close>

definition method_gate_blocks ::
  "(string \<Rightarrow> string) \<Rightarrow> ChaosOptions \<Rightarrow> 'r GenericRequest_scheme \<Rightarrow> bool" where
  "method_gate_blocks toUpperCase options req =
     (case methods options of
        None \<Rightarrow> False
      | Some ms \<Rightarrow>
          0 < length ms \<and>
          (let reqMethod = map_option toUpperCase (req_method req);
               allowedMethods = map toUpperCase ms
           in case reqMethod of
                None \<Rightarrow> True
              | Some m \<Rightarrow> m = [] \<or> m \<notin> set allowedMethods))"

text \<open>Lines 92-103: the synthetic error response.\<close>

definition configured_body :: "ChaosOptions \<Rightarrow> json_object option" where
  "configured_body options = (case error options of None \<Rightarrow> None | Some e \<Rightarrow> body e)"

definition configured_status :: "ChaosOptions \<Rightarrow> number" where
  "configured_status options =
     (case error options of
        None \<Rightarrow> Finite 500
      | Some e \<Rightarrow>
          (case status e of
             None \<Rightarrow> Finite 500
           | Some s \<Rightarrow> if number_truthy s then s else Finite 500))"

definition inject_error :: "ChaosOptions \<Rightarrow> world \<Rightarrow> call list \<times> world" where
  "inject_error options w =
     (let status' = configured_status options;
          body' = configured_body options;
          w1 = console_log LogInjecting w
      in (ResStatus status' # (case body' of Some b \<Rightarrow> [ResJson b] | None \<Rightarrow> [ResEnd]), w1))"

text \<open>
  Lines 106-117 (the same text as src/src/index.ts, lines 51-62): the delay, and the
  call of \<open>next\<close> of line 118 that follows it.
\<close>

definition latency_truthy :: "latency_option \<Rightarrow> bool" where
  "latency_truthy l = (case l of Fixed n \<Rightarrow> number_truthy n | Range min_ms max_ms \<Rightarrow> True)"

definition latency_ms :: "latency_option \<Rightarrow> world \<Rightarrow> number \<times> world" where
  "latency_ms l w =
     (case l of
        Range min_ms max_ms \<Rightarrow>
          (let (r, w1) = Math_random w
           in (Math_floor (num_add (num_mul r (num_add (num_sub max_ms min_ms) (Finite 1))) min_ms),
               w1))
      | Fixed n \<Rightarrow> (n, w))"

definition inject_latency :: "latency_option option \<Rightarrow> world \<Rightarrow> call list \<times> world" where
  "inject_latency lat w =
     (case lat of
        None \<Rightarrow> ([Next], w)
      | Some l \<Rightarrow>
          if latency_truthy l then
            (let (ms, w1) = latency_ms l w;
                 w2 = console_log (LogDelaying ms) w1
             in ([Delay ms, Next], w2))
          else ([Next], w))"

text \<open>Lines 90-118: the decision once the gates have let the request in.\<close>

definition inject_chaos :: "ChaosOptions \<Rightarrow> world \<Rightarrow> call list \<times> world" where
  "inject_chaos options w =
     (let errorRate' = (case errorRate options of None \<Rightarrow> Finite 0 | Some e \<Rightarrow> e);
          (r, w1) = Math_random w
      in if num_less r errorRate' then inject_error options w1
         else inject_latency (latency options) w1)"

text \<open>Lines 69-119. \<open>NODE_ENV\<close> is \<open>process.env.NODE_ENV\<close>, and \<open>toUpperCase\<close>
  the language's \<open>String.prototype.toUpperCase\<close>.\<close>

definition chaosMiddleware ::
  "(string \<Rightarrow> string) \<Rightarrow> ChaosOptions \<Rightarrow> string option \<Rightarrow> 'r GenericRequest_scheme \<Rightarrow> world \<Rightarrow>
     call list \<times> world" where
  "chaosMiddleware toUpperCase options NODE_ENV req w =
     (if NODE_ENV = Some ''production'' then ([Next], w)
      else if activation_gate_blocks options req then ([Next], w)
      else
        let w1 = log_activation options w
        in if method_gate_blocks toUpperCase options req then ([Next], w1)
           else inject_chaos options w1)"

section \<open>The middleware of src/src/index.ts\<close>

text \<open>
  Lines 38-64. It reads \<open>latency\<close> and \<open>errorRate\<close> only and never looks at the
  request; \<open>res.status(500).end()\<close> is the two calls in a chain.
\<close>

definition chaosMiddleware_index ::
  "'o ChaosOptions_index_scheme \<Rightarrow> string option \<Rightarrow> 'q \<Rightarrow> world \<Rightarrow> call list \<times> world" where
  "chaosMiddleware_index options NODE_ENV req w =
     (if NODE_ENV = Some ''production'' then ([Next], w)
      else
        let errorRate' = (case errorRate options of None \<Rightarrow> Finite 0 | Some e \<Rightarrow> e);
            (r, w1) = Math_random w
        in if num_less r errorRate' then
             ([ResStatus (Finite 500), ResEnd], console_log LogInjecting w1)
           else inject_latency (latency options) w1)"

section \<open>Observations on an invocation\<close>

fun is_response_call :: "call \<Rightarrow> bool" where
  "is_response_call (ResStatus _) = True"
| "is_response_call (ResJson _) = True"
| "is_response_call ResEnd = True"
| "is_response_call _ = False"

fun is_delay :: "call \<Rightarrow> bool" where
  "is_delay (Delay _) = True"
| "is_delay _ = False"

text \<open>
  The synthetic error response: a status set on the response, then the configured body
  as JSON, or the bare end of the response when no body is configured.
\<close>

definition sends_error :: "ChaosOptions \<Rightarrow> call list \<Rightarrow> bool" where
  "sends_error options cs =
     (case cs of
        ResStatus s # rest \<Rightarrow>
          rest = (case configured_body options of Some b \<Rightarrow> [ResJson b] | None \<Rightarrow> [ResEnd])
      | _ \<Rightarrow> False)"

text \<open>Passing through: \<open>next()\<close> called once, no call on the response object.\<close>

definition passes_through :: "call list \<Rightarrow> bool" where
  "passes_through cs = (count_list cs Next = 1 \<and> list_all (\<lambda>c. \<not> is_response_call c) cs)"

text \<open>The three gates of lines 70-88 all let the request in.\<close>

definition chaos_applies ::
  "(string \<Rightarrow> string) \<Rightarrow> ChaosOptions \<Rightarrow> string option \<Rightarrow> 'r GenericRequest_scheme \<Rightarrow> bool" where
  "chaos_applies toUpperCase options NODE_ENV req =
     (NODE_ENV \<noteq> Some ''production'' \<and>
      \<not> activation_gate_blocks options req \<and>
      \<not> method_gate_blocks toUpperCase options req)"

text \<open>A server handling requests one after the other, each invocation on the world
  the previous one left.\<close>

fun serve ::
  "(string \<Rightarrow> string) \<Rightarrow> ChaosOptions \<Rightarrow> string option \<Rightarrow> 'r GenericRequest_scheme list \<Rightarrow> world \<Rightarrow>
     call list list \<times> world"
  where
  "serve toUpperCase options NODE_ENV [] w = ([], w)"
| "serve toUpperCase options NODE_ENV (req # reqs) w =
     (let (cs, w1) = chaosMiddleware toUpperCase options NODE_ENV req w;
          (css, w2) = serve toUpperCase options NODE_ENV reqs w1
      in (cs # css, w2))"

section \<open>Example configurations of src/Readme.md\<close>

text \<open>
  "Simulate Specific API Errors": \<open>errorRate: 0.5\<close> and a 401 error with a message body.
\<close>

definition readme_profile_options :: ChaosOptions where
  "readme_profile_options =
     \<lparr>latency = None, errorRate = Some (Finite (1 / 2)),
      error = Some \<lparr>status = Some (Finite 401),
                     body = Some [(''message'', JString ''Your session has expired. Please log in again.'')]\<rparr>,
      methods = None, activationKeyword = None\<rparr>"

text \<open>"Target Specific HTTP Methods": \<open>latency: [800, 1500], methods: ['POST', 'DELETE']\<close>.\<close>

definition readme_posts_options :: ChaosOptions where
  "readme_posts_options =
     \<lparr>latency = Some (Range (Finite 800) (Finite 1500)), errorRate = None, error = None,
      methods = Some [''POST'', ''DELETE''], activationKeyword = None\<rparr>"

text \<open>"Toggle Chaos On-Demand": \<open>latency: [1000, 3000], activationKeyword: 'chaos'\<close>.\<close>

definition readme_toggle_options :: ChaosOptions where
  "readme_toggle_options =
     \<lparr>latency = Some (Range (Finite 1000) (Finite 3000)), errorRate = None, error = None,
      methods = None, activationKeyword = Some ''chaos''\<rparr>"

text \<open>A request \<open>GET /api/data\<close> with no query string, and a fresh world whose generator
  returns the given samples first.\<close>

definition get_request :: GenericRequest where
  "get_request = \<lparr>req_method = Some ''GET'', query = None\<rparr>"

definition world_with :: "rat list \<Rightarrow> world" where
  "world_with samples = \<lparr>rng = samples @- sconst 0, console = []\<rparr>"

section \<open>The rounding model\<close>

text \<open>
  Two facts that tie the model of binary64 rounding to its meaning: \<open>floor_log2\<close>
  finds the binade of a positive rational, and \<open>round_to_spacing\<close> returns a multiple
  of the spacing at most half a spacing away.
\<close>

lemma pow2_pos: "0 < pow2 e"
  by (simp add: pow2_def)

lemma floor_log2_bounds:
  assumes "0 < x"
  shows "pow2 (floor_log2 x) \<le> x \<and> x < pow2 (floor_log2 x + 1)"
proof (cases "1 \<le> x")
  case True
  define n where "n = \<lfloor>x\<rfloor>"
  have n1: "1 \<le> n"
    using True by (simp add: n_def)
  then have b: "2 ^ nat (bitlen n - 1) \<le> n" "n < 2 ^ nat (bitlen n)"
    using bitlen_bounds[of n] by simp_all
  have bl: "1 \<le> bitlen n"
    using n1 by (simp add: bitlen_alt_def)
  have fl: "floor_log2 x = bitlen n - 1"
    using True by (simp add: floor_log2_def n_def)
  have lo: "(2::rat) ^ nat (bitlen n - 1) \<le> x"
  proof -
    have "(of_int (2 ^ nat (bitlen n - 1)) :: rat) \<le> of_int n"
      using b(1) by (simp only: of_int_le_iff)
    also have "of_int n \<le> x"
      by (simp add: n_def)
    finally show ?thesis by simp
  qed
  have hi: "x < (2::rat) ^ nat (bitlen n)"
  proof -
    have "x < of_int n + 1"
      unfolding n_def by linarith
    also have "(of_int n + 1 :: rat) = of_int (n + 1)"
      by simp
    also have "(of_int (n + 1) :: rat) \<le> of_int (2 ^ nat (bitlen n))"
      using b(2) by (simp only: of_int_le_iff)
    finally show ?thesis by simp
  qed
  show ?thesis
    using lo hi bl by (simp add: fl pow2_def)
next
  case False
  define d where "d = \<lceil>1 / x\<rceil> - 1"
  have inv: "1 < 1 / x"
    using assms False by simp
  have d1: "1 \<le> d"
    using inv by (simp add: d_def less_ceiling_iff)
  then have b: "2 ^ nat (bitlen d - 1) \<le> d" "d < 2 ^ nat (bitlen d)"
    using bitlen_bounds[of d] by simp_all
  have bl: "1 \<le> bitlen d"
    using d1 by (simp add: bitlen_alt_def)
  have fl: "floor_log2 x = - bitlen d"
    using False by (simp add: floor_log2_def d_def)
  have up: "1 / x \<le> (2::rat) ^ nat (bitlen d)"
  proof -
    have "1 / x \<le> of_int (d + 1)"
      unfolding d_def by simp
    also have "(of_int (d + 1) :: rat) \<le> of_int (2 ^ nat (bitlen d))"
      using b(2) by (simp only: of_int_le_iff)
    finally show ?thesis by simp
  qed
  have dn: "(2::rat) ^ nat (bitlen d - 1) < 1 / x"
  proof -
    have "(of_int (2 ^ nat (bitlen d - 1)) :: rat) \<le> of_int d"
      using b(1) by (simp only: of_int_le_iff)
    also have "(of_int d :: rat) < 1 / x"
      unfolding d_def by linarith
    finally show ?thesis by simp
  qed
  have lo: "1 / 2 ^ nat (bitlen d) \<le> x"
    using up assms by (simp add: field_simps)
  have hi: "x < 1 / 2 ^ nat (bitlen d - 1)"
    using dn assms by (simp add: field_simps)
  show ?thesis
  proof (cases "bitlen d = 1")
    case True
    then show ?thesis
      using lo hi by (simp add: fl pow2_def)
  next
    case False
    then have "1 < bitlen d"
      using bl by simp
    then show ?thesis
      using lo hi by (simp add: fl pow2_def)
  qed
qed

lemma round_to_spacing_nearest: "\<bar>round_to_spacing e x - x\<bar> \<le> pow2 e / 2"
proof -
  define q where "q = x / pow2 e"
  define m where "m = (if q - of_int \<lfloor>q\<rfloor> < 1 / 2 then \<lfloor>q\<rfloor>
       else if 1 / 2 < q - of_int \<lfloor>q\<rfloor> then \<lfloor>q\<rfloor> + 1
       else if even \<lfloor>q\<rfloor> then \<lfloor>q\<rfloor> else \<lfloor>q\<rfloor> + 1)"
  have r: "round_to_spacing e x = of_int m * pow2 e"
    by (simp add: round_to_spacing_def Let_def q_def m_def)
  have x: "x = q * pow2 e"
    using pow2_pos[of e] by (simp add: q_def)
  have near: "\<bar>of_int m - q\<bar> \<le> 1 / 2"
    unfolding m_def by (auto simp: abs_if) linarith+
  have "round_to_spacing e x - x = (of_int m - q) * pow2 e"
  proof -
    have "(of_int m - q) * pow2 e = of_int m * pow2 e - q * pow2 e"
      by (simp add: left_diff_distrib)
    then show ?thesis
      using x r by simp
  qed
  then have "\<bar>round_to_spacing e x - x\<bar> = \<bar>of_int m - q\<bar> * pow2 e"
    using pow2_pos[of e] by (simp add: abs_mult)
  also have "\<dots> \<le> 1 / 2 * pow2 e"
    using near pow2_pos[of e] by (intro mult_right_mono) simp_all
  finally show ?thesis by simp
qed

text \<open>Evaluating \<open>fround\<close> at a numeral: the binade first, then the rounding.\<close>

lemma floor_rat_numeral_div: "\<lfloor>numeral a / numeral b :: rat\<rfloor> = numeral a div numeral b"
  using floor_divide_of_int_eq[of "numeral a" "numeral b", where ?'a = rat] by simp

lemma ceiling_rat_numeral_div:
  "\<lceil>numeral a / numeral b :: rat\<rceil> = - (- numeral a div numeral b)"
  using floor_divide_of_int_eq[of "- numeral a" "numeral b", where ?'a = rat]
  by (simp add: ceiling_def)

lemma fround_eval:
  "x \<noteq> 0 \<Longrightarrow> spacing_exponent x = e \<Longrightarrow> round_to_spacing e x = y \<Longrightarrow> \<bar>y\<bar> < 2 ^ 1024 \<Longrightarrow>
   fround x = Finite y"
  by (simp add: fround_def Let_def)

lemmas spacing_eval = spacing_exponent_def floor_log2_def compute_bitlen
  floor_rat_numeral_div ceiling_rat_numeral_div

lemmas rounding_eval = round_to_spacing_def pow2_def Let_def floor_rat_numeral_div

section \<open>What an invocation calls\<close>

lemma rng_console_log: "rng (console_log m w) = rng w"
  by (simp add: console_log_def)

lemma rng_log_activation: "rng (log_activation options w) = rng w"
  by (simp add: log_activation_def rng_console_log split: option.splits)

lemma fst_inject_error:
  "fst (inject_error options w) =
     ResStatus (configured_status options) #
       (case configured_body options of Some b \<Rightarrow> [ResJson b] | None \<Rightarrow> [ResEnd])"
  by (simp add: inject_error_def Let_def)

lemma snd_inject_error_rng: "rng (snd (inject_error options w)) = rng w"
  by (simp add: inject_error_def Let_def rng_console_log)

lemma fst_inject_latency:
  "fst (inject_latency lat w) =
     (case lat of
        None \<Rightarrow> [Next]
      | Some l \<Rightarrow> if latency_truthy l then [Delay (fst (latency_ms l w)), Next] else [Next])"
  by (simp add: inject_latency_def Let_def split: option.splits prod.splits)

lemma fst_inject_chaos:
  "fst (inject_chaos options w) =
     (if num_less (Finite (shd (rng w))) (case errorRate options of None \<Rightarrow> Finite 0 | Some e \<Rightarrow> e)
      then fst (inject_error options (w\<lparr>rng := stl (rng w)\<rparr>))
      else fst (inject_latency (latency options) (w\<lparr>rng := stl (rng w)\<rparr>)))"
  by (simp add: inject_chaos_def Math_random_def Let_def)

lemma fst_chaosMiddleware:
  "fst (chaosMiddleware toUpperCase options NODE_ENV req w) =
     (if chaos_applies toUpperCase options NODE_ENV req then fst (inject_chaos options (log_activation options w))
      else [Next])"
  by (simp add: chaosMiddleware_def chaos_applies_def Let_def)

lemmas gate_defs = chaos_applies_def activation_gate_blocks_def method_gate_blocks_def
  ascii_upper_def upper_char_def

lemmas run_defs = chaosMiddleware_def chaosMiddleware_index_def log_activation_def
  inject_chaos_def inject_error_def inject_latency_def latency_truthy_def latency_ms_def
  configured_status_def configured_body_def Math_random_def console_log_def Let_def

lemmas observe_defs = sends_error_def passes_through_def configured_body_def

lemmas example_defs = readme_profile_options_def readme_posts_options_def
  readme_toggle_options_def get_request_def world_with_def

section \<open>Error response or pass-through\<close>

text \<open>
  Claim C1. For every options object, request and sequence of random samples, one
  invocation of the middleware does exactly one of two things: it sends the synthetic
  error response (a status set on the response, then the configured body as JSON, or the
  end of the response when no body is configured) and never calls \<open>next\<close>; or it calls
  \<open>next()\<close> exactly once and makes no call on the response object.
\<close>

theorem error_or_next_exclusive:
  "let cs = fst (chaosMiddleware toUpperCase options NODE_ENV req w) in
     (sends_error options cs \<and> count_list cs Next = 0 \<and> \<not> passes_through cs) \<or>
     (passes_through cs \<and> \<not> sends_error options cs)"
  by (simp add: Let_def fst_chaosMiddleware fst_inject_chaos fst_inject_error fst_inject_latency
      sends_error_def passes_through_def split: option.splits)

theorem error_or_next_exclusive_witness:
  "fst (chaosMiddleware ascii_upper readme_profile_options None get_request (world_with [1 / 4])) =
     [ResStatus (Finite 401), ResJson [(''message'', JString ''Your session has expired. Please log in again.'')]] \<and>
   sends_error readme_profile_options
     [ResStatus (Finite 401), ResJson [(''message'', JString ''Your session has expired. Please log in again.'')]] \<and>
   \<not> passes_through
     [ResStatus (Finite 401), ResJson [(''message'', JString ''Your session has expired. Please log in again.'')]]"
  using error_or_next_exclusive[where toUpperCase = ascii_upper and options = readme_profile_options
      and NODE_ENV = None and req = get_request and w = "world_with [1 / 4]"]
  by (simp add: run_defs gate_defs observe_defs example_defs)

section \<open>The production gate\<close>

text \<open>
  Claim C2. When \<open>process.env.NODE_ENV\<close> is \<open>'production'\<close>, the middleware calls
  \<open>next()\<close> exactly once and does nothing else: no delay, no call on the response
  object, no sample drawn, nothing logged, whatever the options, the request and the
  samples. This holds for the middleware of src/unnamed/part_001 and for that of
  src/src/index.ts.
\<close>

theorem production_passes_through:
  "chaosMiddleware toUpperCase options (Some ''production'') req w = ([Next], w) \<and>
   chaosMiddleware_index options' (Some ''production'') req' w = ([Next], w)"
  by (simp add: chaosMiddleware_def chaosMiddleware_index_def)

theorem production_passes_through_witness:
  "chaosMiddleware ascii_upper readme_profile_options (Some ''production'') get_request (world_with [1 / 4]) =
     ([Next], world_with [1 / 4]) \<and>
   chaosMiddleware_index readme_profile_options (Some ''production'') get_request
     (world_with [1 / 4]) = ([Next], world_with [1 / 4])"
  using production_passes_through[where toUpperCase = ascii_upper
      and options = readme_profile_options and req = get_request and w = "world_with [1 / 4]"
      and options' = readme_profile_options and req' = get_request]
  by simp

section \<open>Error and latency on one request\<close>

text \<open>
  Claim C3 says that for some options with \<open>errorRate > 0\<close> and \<open>latency\<close> set there
  are samples under which one request receives both the delay and the error response.
  No such options, request and samples exist: line 103 returns from the error branch
  before the latency block of lines 106-117 is reached.
\<close>

theorem no_request_gets_both:
  "\<not> (\<exists>toUpperCase options NODE_ENV (req :: GenericRequest) w.
        (\<exists>e. errorRate options = Some e \<and> num_less (Finite 0) e) \<and>
        latency options \<noteq> None \<and>
        (let cs = fst (chaosMiddleware toUpperCase options NODE_ENV req w)
         in list_ex is_delay cs \<and> list_ex is_response_call cs))"
  by (simp add: Let_def fst_chaosMiddleware fst_inject_chaos fst_inject_error fst_inject_latency
      split: option.splits)

text \<open>
  Claim C3, amended. When chaos applies to a request (the environment, activation and
  method gates all pass), the decision engine injects an error or latency, never both:
  if the first sample is strictly below \<open>errorRate\<close> it sends the synthetic error
  response with no delay; otherwise it sends no error, calls \<open>next()\<close> once, and
  injects the delay exactly when \<open>latency\<close> is set and truthy.
\<close>

theorem error_or_latency_never_both:
  "chaos_applies toUpperCase options NODE_ENV req \<Longrightarrow>
   (let cs = fst (chaosMiddleware toUpperCase options NODE_ENV req w);
        rate = (case errorRate options of None \<Rightarrow> Finite 0 | Some e \<Rightarrow> e)
    in if num_less (Finite (shd (rng w))) rate
       then sends_error options cs \<and> \<not> list_ex is_delay cs
       else passes_through cs \<and>
            (list_ex is_delay cs \<longleftrightarrow> (\<exists>l. latency options = Some l \<and> latency_truthy l)))"
  by (simp add: Let_def fst_chaosMiddleware fst_inject_chaos fst_inject_error fst_inject_latency
      rng_log_activation sends_error_def passes_through_def split: option.splits)

theorem error_or_latency_never_both_witness:
  "chaos_applies ascii_upper (readme_profile_options\<lparr>latency := Some (Fixed (Finite 200))\<rparr>) None get_request \<and>
   fst (chaosMiddleware ascii_upper (readme_profile_options\<lparr>latency := Some (Fixed (Finite 200))\<rparr>) None
          get_request (world_with [3 / 4])) = [Delay (Finite 200), Next] \<and>
   passes_through [Delay (Finite 200), Next]"
  using error_or_latency_never_both[where toUpperCase = ascii_upper
      and options = "readme_profile_options\<lparr>latency := Some (Fixed (Finite 200))\<rparr>"
      and NODE_ENV = None and req = get_request and w = "world_with [3 / 4]"]
  by (simp add: run_defs gate_defs observe_defs example_defs)

section \<open>The error decision\<close>

text \<open>
  Claim C4. When chaos applies, the error decision compares one fresh sample with
  \<open>errorRate ?? 0\<close>: the error response is sent exactly when the sample is strictly
  below the rate, and then exactly one sample has been drawn. So with \<open>errorRate\<close>
  omitted or \<open>0\<close> no sample in \<open>[0,1)\<close> leads to the error branch, and with
  \<open>errorRate = 1\<close> every sample in \<open>[0,1)\<close> does. The middleware of src/src/index.ts
  decides the same way outside production.
\<close>

theorem error_iff_sample_below_rate:
  "(chaos_applies toUpperCase options NODE_ENV req \<longrightarrow>
      (sends_error options (fst (chaosMiddleware toUpperCase options NODE_ENV req w)) \<longleftrightarrow>
         num_less (Finite (shd (rng w)))
           (case errorRate options of None \<Rightarrow> Finite 0 | Some e \<Rightarrow> e)) \<and>
      (sends_error options (fst (chaosMiddleware toUpperCase options NODE_ENV req w)) \<longrightarrow>
         rng (snd (chaosMiddleware toUpperCase options NODE_ENV req w)) = stl (rng w)) \<and>
      (0 \<le> shd (rng w) \<longrightarrow> errorRate options \<in> {None, Some (Finite 0)} \<longrightarrow>
         \<not> sends_error options (fst (chaosMiddleware toUpperCase options NODE_ENV req w))) \<and>
      (shd (rng w) < 1 \<longrightarrow> errorRate options = Some (Finite 1) \<longrightarrow>
         sends_error options (fst (chaosMiddleware toUpperCase options NODE_ENV req w)))) \<and>
   (NODE_ENV \<noteq> Some ''production'' \<longrightarrow>
      (fst (chaosMiddleware_index options' NODE_ENV req' w) = [ResStatus (Finite 500), ResEnd] \<longleftrightarrow>
         num_less (Finite (shd (rng w)))
           (case errorRate options' of None \<Rightarrow> Finite 0 | Some e \<Rightarrow> e)))"
proof -
  have iff: "sends_error options (fst (chaosMiddleware toUpperCase options NODE_ENV req w)) \<longleftrightarrow>
      num_less (Finite (shd (rng w))) (case errorRate options of None \<Rightarrow> Finite 0 | Some e \<Rightarrow> e)"
    if "chaos_applies toUpperCase options NODE_ENV req"
    using that
    by (simp add: fst_chaosMiddleware fst_inject_chaos fst_inject_error fst_inject_latency
        rng_log_activation sends_error_def split: option.splits)
  have one_sample: "rng (snd (chaosMiddleware toUpperCase options NODE_ENV req w)) = stl (rng w)"
    if "chaos_applies toUpperCase options NODE_ENV req"
      and "num_less (Finite (shd (rng w))) (case errorRate options of None \<Rightarrow> Finite 0 | Some e \<Rightarrow> e)"
    using that
    by (simp add: chaosMiddleware_def chaos_applies_def inject_chaos_def Math_random_def Let_def
        rng_log_activation snd_inject_error_rng)
  have idx: "fst (chaosMiddleware_index options' NODE_ENV req' w) = [ResStatus (Finite 500), ResEnd] \<longleftrightarrow>
      num_less (Finite (shd (rng w))) (case errorRate options' of None \<Rightarrow> Finite 0 | Some e \<Rightarrow> e)"
    if "NODE_ENV \<noteq> Some ''production''"
    using that
    by (simp add: chaosMiddleware_index_def Math_random_def Let_def fst_inject_latency
        split: option.splits)
  show ?thesis
    using iff one_sample idx by auto
qed

theorem error_iff_sample_below_rate_witness:
  "sends_error (readme_profile_options\<lparr>errorRate := Some (Finite 1)\<rparr>)
     (fst (chaosMiddleware ascii_upper (readme_profile_options\<lparr>errorRate := Some (Finite 1)\<rparr>) None get_request
        (world_with [4503599627370495 / 4503599627370496]))) \<and>
   \<not> sends_error (readme_profile_options\<lparr>errorRate := Some (Finite 0)\<rparr>)
     (fst (chaosMiddleware ascii_upper (readme_profile_options\<lparr>errorRate := Some (Finite 0)\<rparr>) None get_request
        (world_with [0]))) \<and>
   fst (chaosMiddleware_index readme_profile_options None get_request (world_with [1 / 4])) =
     [ResStatus (Finite 500), ResEnd]"
  using error_iff_sample_below_rate[where toUpperCase = ascii_upper
      and options = "readme_profile_options\<lparr>errorRate := Some (Finite 1)\<rparr>"
      and NODE_ENV = None and req = get_request
      and w = "world_with [4503599627370495 / 4503599627370496]"
      and options' = readme_profile_options and req' = get_request]
    error_iff_sample_below_rate[where toUpperCase = ascii_upper
      and options = "readme_profile_options\<lparr>errorRate := Some (Finite 0)\<rparr>"
      and NODE_ENV = None and req = get_request and w = "world_with [0]"
      and options' = readme_profile_options and req' = get_request]
    error_iff_sample_below_rate[where toUpperCase = ascii_upper
      and options = readme_profile_options
      and NODE_ENV = None and req = get_request and w = "world_with [1 / 4]"
      and options' = readme_profile_options and req' = get_request]
  by (simp add: run_defs gate_defs observe_defs example_defs)

section \<open>The injected delay\<close>

text \<open>
  What lines 106-117 pass to \<open>delay\<close> once chaos applies and no error is injected:
  a single truthy number as it is, and for a pair the floor of
  \<open>Math.random() * (max - min + 1) + min\<close>, each operation rounded to binary64.
\<close>

lemma fixed_latency_delay:
  "chaos_applies toUpperCase options NODE_ENV req \<Longrightarrow>
   \<not> num_less (Finite (shd (rng w))) (case errorRate options of None \<Rightarrow> Finite 0 | Some e \<Rightarrow> e) \<Longrightarrow>
   latency options = Some (Fixed n) \<Longrightarrow> number_truthy n \<Longrightarrow>
   fst (chaosMiddleware toUpperCase options NODE_ENV req w) = [Delay n, Next]"
  by (simp add: fst_chaosMiddleware fst_inject_chaos fst_inject_latency latency_truthy_def
      latency_ms_def rng_log_activation)

lemma range_latency_delay:
  "chaos_applies toUpperCase options NODE_ENV req \<Longrightarrow>
   \<not> num_less (Finite (shd (rng w))) (case errorRate options of None \<Rightarrow> Finite 0 | Some e \<Rightarrow> e) \<Longrightarrow>
   latency options = Some (Range min_ms max_ms) \<Longrightarrow>
   fst (chaosMiddleware toUpperCase options NODE_ENV req w) =
     [Delay (Math_floor (num_add (num_mul (Finite (shd (stl (rng w))))
               (num_add (num_sub max_ms min_ms) (Finite 1))) min_ms)), Next]"
  by (simp add: fst_chaosMiddleware fst_inject_chaos fst_inject_latency latency_truthy_def
      latency_ms_def Math_random_def rng_log_activation)

text \<open>
  In exact arithmetic the formula of line 110 stays between \<open>min\<close> and \<open>max\<close>
  for integers \<open>min \<le> max\<close> and a sample in \<open>[0,1)\<close>.
\<close>

lemma exact_latency_in_range:
  fixes r :: rat and lo hi :: int
  assumes "0 \<le> r" "r < 1" "lo \<le> hi"
  shows "lo \<le> \<lfloor>r * (of_int hi - of_int lo + 1) + of_int lo\<rfloor> \<and>
         \<lfloor>r * (of_int hi - of_int lo + 1) + of_int lo\<rfloor> \<le> hi"
proof -
  define n :: rat where "n = of_int hi - of_int lo + 1"
  have n: "0 < n"
    using assms(3) by (simp add: n_def)
  have a: "0 \<le> r * n"
    using assms(1) n by simp
  have b: "r * n < n"
    using assms(2) n by simp
  have "of_int lo \<le> r * n + of_int lo"
    using a by simp
  then have lo: "lo \<le> \<lfloor>r * n + of_int lo\<rfloor>"
    by (simp add: le_floor_iff)
  have "r * n + of_int lo < of_int (hi + 1)"
    using b by (simp add: n_def)
  then have "\<lfloor>r * n + of_int lo\<rfloor> < hi + 1"
    by (simp only: floor_less_iff)
  then show ?thesis
    using lo by (simp add: n_def)
qed

text \<open>
  With binary64 rounding it does not. For \<open>latency: [800, 1500]\<close> and the sample
  \<open>1 - 2^-52 = 4503599627370495 / 4503599627370496\<close> (printed \<open>0.9999999999999998\<close>):
  \<open>1500 - 800 + 1 = 701\<close>; the product \<open>701 - 701 / 2^52\<close> rounds to
  \<open>701 - 2^-43 = 6166061208567807 / 8796093022208\<close>; the sum \<open>1501 - 2^-43\<close> lies
  halfway between \<open>1501 - 2^-42\<close> and \<open>1501\<close> and rounds to the even one, \<open>1501\<close>.
\<close>

lemma overshoot_sub: "num_sub (Finite 1500) (Finite 800) = Finite 700"
proof -
  have "fround (1500 + - 800) = Finite 700"
    by (rule fround_eval[where e = "- 43"])
      (simp, simp add: spacing_eval, simp add: rounding_eval, simp)
  then show ?thesis
    by (simp only: num_sub_def num_neg.simps num_add.simps)
qed

lemma overshoot_width: "num_add (Finite 700) (Finite 1) = Finite 701"
proof -
  have "fround (700 + 1) = Finite 701"
    by (rule fround_eval[where e = "- 43"])
      (simp, simp add: spacing_eval, simp add: rounding_eval, simp)
  then show ?thesis
    by (simp only: num_add.simps)
qed

lemma overshoot_mul:
  "num_mul (Finite (4503599627370495 / 4503599627370496)) (Finite 701) =
   Finite (6166061208567807 / 8796093022208)"
proof -
  have "fround (4503599627370495 / 4503599627370496 * 701) =
      Finite (6166061208567807 / 8796093022208)"
    by (rule fround_eval[where e = "- 43"])
      (simp, simp add: spacing_eval, simp add: rounding_eval, simp)
  then show ?thesis
    by (simp only: num_mul.simps)
qed

lemma overshoot_add:
  "num_add (Finite (6166061208567807 / 8796093022208)) (Finite 800) = Finite 1501"
proof -
  have "fround (6166061208567807 / 8796093022208 + 800) = Finite 1501"
    by (rule fround_eval[where e = "- 42"])
      (simp, simp add: spacing_eval, simp add: rounding_eval, simp)
  then show ?thesis
    by (simp only: num_add.simps)
qed

lemma sample_is_binary64:
  "fround (4503599627370495 / 4503599627370496) = Finite (4503599627370495 / 4503599627370496)"
  by (rule fround_eval[where e = "- 53"])
    (simp, simp add: spacing_eval, simp add: rounding_eval, simp)

lemma overshoot_value:
  "Math_floor (num_add (num_mul (Finite (4503599627370495 / 4503599627370496))
      (num_add (num_sub (Finite 1500) (Finite 800)) (Finite 1))) (Finite 800)) = Finite 1501"
  unfolding overshoot_sub overshoot_width overshoot_mul overshoot_add by simp

text \<open>
  Claim C5 says that for a pair \<open>[min, max]\<close> of integers with \<open>min \<le> max\<close> the
  injected delay lies between \<open>min\<close> and \<open>max\<close> for every sample in \<open>[0,1)\<close>.
  The code misses it: with \<open>latency: [800, 1500]\<close>, no error rate, and the samples
  \<open>0.5\<close> (for the error decision) and \<open>1 - 2^-52\<close> (for the delay), both binary64
  values in \<open>[0,1)\<close>, the middleware awaits \<open>delay(1501)\<close> before calling \<open>next\<close>.
\<close>

theorem latency_range_overshoot:
  "fround (4503599627370495 / 4503599627370496) = Finite (4503599627370495 / 4503599627370496) \<and>
   fst (chaosMiddleware ascii_upper
      (readme_posts_options\<lparr>methods := None\<rparr>) None get_request
      (world_with [1 / 2, 4503599627370495 / 4503599627370496])) =
     [Delay (Finite 1501), Next] \<and>
   num_less (Finite 1500) (Finite 1501)"
  by (simp add: sample_is_binary64 run_defs gate_defs example_defs overshoot_value)

section \<open>The activation gate\<close>

text \<open>
  Claim C6. If \<open>options.activationKeyword\<close> is a non-empty string and the request's
  query is absent or does not map that keyword to the string \<open>'true'\<close>, chaos does not
  apply: the middleware calls \<open>next()\<close> once and does nothing else (no delay, no
  error, no sample drawn), for every \<open>errorRate\<close>, \<open>latency\<close>, environment and sample.
\<close>

theorem activation_gate_closed:
  "activationKeyword options = Some kw \<Longrightarrow> kw \<noteq> [] \<Longrightarrow>
   query req = None \<or> (\<exists>q. query req = Some q \<and> q kw \<noteq> Some (JString ''true'')) \<Longrightarrow>
   chaosMiddleware toUpperCase options NODE_ENV req w = ([Next], w)"
  by (auto simp: chaosMiddleware_def activation_gate_blocks_def)

theorem activation_gate_closed_witness:
  "chaosMiddleware ascii_upper readme_toggle_options None
     \<lparr>req_method = Some ''GET'', query = Some [''chaos'' \<mapsto> JString ''false'']\<rparr>
     (world_with [1 / 4]) = ([Next], world_with [1 / 4]) \<and>
   chaosMiddleware ascii_upper readme_toggle_options None get_request (world_with [1 / 4]) =
     ([Next], world_with [1 / 4])"
  using activation_gate_closed[where toUpperCase = ascii_upper and options = readme_toggle_options
      and kw = "''chaos''"
      and req = "\<lparr>req_method = Some ''GET'', query = Some [''chaos'' \<mapsto> JString ''false'']\<rparr>"
      and NODE_ENV = None and w = "world_with [1 / 4]"]
    activation_gate_closed[where toUpperCase = ascii_upper and options = readme_toggle_options
      and kw = "''chaos''" and req = get_request and NODE_ENV = None and w = "world_with [1 / 4]"]
  by (simp add: example_defs)

section \<open>The method gate\<close>

lemma method_gate_blocks_iff:
  "method_gate_blocks toUpperCase options req \<longleftrightarrow>
     (\<exists>ms. methods options = Some ms \<and> ms \<noteq> [] \<and>
        (case req_method req of
           None \<Rightarrow> True
         | Some m \<Rightarrow> toUpperCase m = [] \<or> toUpperCase m \<notin> set (map toUpperCase ms)))"
  by (auto simp: method_gate_blocks_def Let_def split: option.splits)

lemma chaosMiddleware_method_blocked:
  "method_gate_blocks toUpperCase options req \<Longrightarrow>
   fst (chaosMiddleware toUpperCase options NODE_ENV req w) = [Next] \<and>
   rng (snd (chaosMiddleware toUpperCase options NODE_ENV req w)) = rng w"
  by (simp add: chaosMiddleware_def Let_def rng_log_activation)

lemma activation_gate_blocks_upd:
  "activation_gate_blocks (options\<lparr>methods := x\<rparr>) (req\<lparr>req_method := y\<rparr>) =
   activation_gate_blocks options req"
  by (simp add: activation_gate_blocks_def split: option.splits)

lemma activation_gate_blocks_methods:
  "activation_gate_blocks (options\<lparr>methods := x\<rparr>) req = activation_gate_blocks options req"
  by (simp add: activation_gate_blocks_def)

lemma log_activation_upd: "log_activation (options\<lparr>methods := x\<rparr>) w = log_activation options w"
  by (simp add: log_activation_def)

lemma inject_chaos_upd: "inject_chaos (options\<lparr>methods := x\<rparr>) w = inject_chaos options w"
  by (simp add: inject_chaos_def Math_random_def inject_error_def configured_status_def
      configured_body_def Let_def)

text \<open>
  Claim C7. If \<open>options.methods\<close> is a non-empty array and the request has no method,
  or its method in upper case is not among the elements of \<open>options.methods\<close> in upper
  case, chaos does not apply: the middleware calls \<open>next()\<close> once, with no delay, no
  error and no sample drawn. The matching ignores case on both sides: a request whose
  method in upper case is not empty and is among the elements of the list in upper case
  passes the method gate, however either is spelled, and then the middleware goes on to
  the error and latency decision; requests and lists that agree after \<open>toUpperCase\<close>
  are treated alike. All of it holds for every function \<open>toUpperCase\<close>, so for the
  language's.
\<close>

theorem method_gate_closed:
  "(methods options = Some ms \<longrightarrow> ms \<noteq> [] \<longrightarrow>
      (req_method req = None \<or>
       (\<exists>m. req_method req = Some m \<and> toUpperCase m \<notin> set (map toUpperCase ms))) \<longrightarrow>
      fst (chaosMiddleware toUpperCase options NODE_ENV req w) = [Next] \<and>
      rng (snd (chaosMiddleware toUpperCase options NODE_ENV req w)) = rng w) \<and>
   (methods options = Some ms \<longrightarrow> req_method req = Some m \<longrightarrow>
      toUpperCase m \<noteq> [] \<longrightarrow> toUpperCase m \<in> set (map toUpperCase ms) \<longrightarrow>
      \<not> method_gate_blocks toUpperCase options req \<and>
      (NODE_ENV \<noteq> Some ''production'' \<longrightarrow> \<not> activation_gate_blocks options req \<longrightarrow>
         chaosMiddleware toUpperCase options NODE_ENV req w =
         inject_chaos options (log_activation options w))) \<and>
   (toUpperCase ma = toUpperCase mb \<longrightarrow> map toUpperCase msa = map toUpperCase msb \<longrightarrow>
      chaosMiddleware toUpperCase (options\<lparr>methods := Some msa\<rparr>) NODE_ENV
        (req\<lparr>req_method := Some ma\<rparr>) w =
      chaosMiddleware toUpperCase (options\<lparr>methods := Some msb\<rparr>) NODE_ENV
        (req\<lparr>req_method := Some mb\<rparr>) w)"
proof -
  have closed: "fst (chaosMiddleware toUpperCase options NODE_ENV req w) = [Next] \<and>
      rng (snd (chaosMiddleware toUpperCase options NODE_ENV req w)) = rng w"
    if "methods options = Some ms" "ms \<noteq> []"
      "req_method req = None \<or>
       (\<exists>m. req_method req = Some m \<and> toUpperCase m \<notin> set (map toUpperCase ms))"
  proof -
    from that have "method_gate_blocks toUpperCase options req"
      by (auto simp: method_gate_blocks_iff)
    then show ?thesis
      by (rule chaosMiddleware_method_blocked)
  qed
  have let_in: "\<not> method_gate_blocks toUpperCase options req"
    if "methods options = Some ms" "req_method req = Some m"
      "toUpperCase m \<noteq> []" "toUpperCase m \<in> set (map toUpperCase ms)"
    using that by (simp add: method_gate_blocks_iff)
  have goes_on: "chaosMiddleware toUpperCase options NODE_ENV req w =
      inject_chaos options (log_activation options w)"
    if "\<not> method_gate_blocks toUpperCase options req" "NODE_ENV \<noteq> Some ''production''"
      "\<not> activation_gate_blocks options req"
    using that by (simp add: chaosMiddleware_def Let_def)
  have insensitive:
    "chaosMiddleware toUpperCase (options\<lparr>methods := Some msa\<rparr>) NODE_ENV
       (req\<lparr>req_method := Some ma\<rparr>) w =
     chaosMiddleware toUpperCase (options\<lparr>methods := Some msb\<rparr>) NODE_ENV
       (req\<lparr>req_method := Some mb\<rparr>) w"
    if up: "toUpperCase ma = toUpperCase mb" and ups: "map toUpperCase msa = map toUpperCase msb"
  proof -
    from ups have n: "msa = [] \<longleftrightarrow> msb = []"
      by (metis map_is_Nil_conv)
    from ups have img: "toUpperCase ` set msa = toUpperCase ` set msb"
      by (metis set_map)
    have gate:
      "method_gate_blocks toUpperCase (options\<lparr>methods := Some msa\<rparr>) (req\<lparr>req_method := Some ma\<rparr>) =
       method_gate_blocks toUpperCase (options\<lparr>methods := Some msb\<rparr>) (req\<lparr>req_method := Some mb\<rparr>)"
      using up n img by (simp add: method_gate_blocks_iff)
    show ?thesis
      by (simp only: chaosMiddleware_def gate activation_gate_blocks_upd log_activation_upd
          inject_chaos_upd)
  qed
  show ?thesis
    using closed let_in goes_on insensitive by blast
qed

text \<open>
  With \<open>methods: ['POST', 'DELETE']\<close>: a request with method \<open>get\<close> passes through;
  a request with method \<open>post\<close> is let in and, with a fixed latency of 800, delayed;
  and the spellings \<open>post\<close> against \<open>['Post', 'delete']\<close> and \<open>POST\<close> against
  \<open>['POST', 'DELETE']\<close> give the same run.
\<close>

theorem method_gate_closed_witness:
  "fst (chaosMiddleware ascii_upper readme_posts_options None
          (get_request\<lparr>req_method := Some ''get''\<rparr>) (world_with [1 / 4])) = [Next] \<and>
   \<not> method_gate_blocks ascii_upper (readme_posts_options\<lparr>latency := Some (Fixed (Finite 800))\<rparr>)
       (get_request\<lparr>req_method := Some ''post''\<rparr>) \<and>
   fst (chaosMiddleware ascii_upper (readme_posts_options\<lparr>latency := Some (Fixed (Finite 800))\<rparr>) None
          (get_request\<lparr>req_method := Some ''post''\<rparr>) (world_with [1 / 4])) =
     [Delay (Finite 800), Next] \<and>
   chaosMiddleware ascii_upper (readme_posts_options\<lparr>methods := Some [''Post'', ''delete'']\<rparr>) None
       (get_request\<lparr>req_method := Some ''post''\<rparr>) (world_with [1 / 4]) =
   chaosMiddleware ascii_upper (readme_posts_options\<lparr>methods := Some [''POST'', ''DELETE'']\<rparr>) None
       (get_request\<lparr>req_method := Some ''POST''\<rparr>) (world_with [1 / 4])"
proof -
  note blocked = method_gate_closed[where toUpperCase = ascii_upper
      and options = readme_posts_options and ms = "[''POST'', ''DELETE'']"
      and req = "get_request\<lparr>req_method := Some ''get''\<rparr>" and NODE_ENV = None
      and w = "world_with [1 / 4]" and m = "''get''"
      and ma = "''post''" and mb = "''POST''"
      and msa = "[''Post'', ''delete'']" and msb = "[''POST'', ''DELETE'']"]
  note admitted = method_gate_closed[where toUpperCase = ascii_upper
      and options = "readme_posts_options\<lparr>latency := Some (Fixed (Finite 800))\<rparr>"
      and ms = "[''POST'', ''DELETE'']"
      and req = "get_request\<lparr>req_method := Some ''post''\<rparr>" and NODE_ENV = None
      and w = "world_with [1 / 4]" and m = "''post''"
      and ma = "''post''" and mb = "''POST''"
      and msa = "[''Post'', ''delete'']" and msb = "[''POST'', ''DELETE'']"]
  have a: "fst (chaosMiddleware ascii_upper readme_posts_options None
          (get_request\<lparr>req_method := Some ''get''\<rparr>) (world_with [1 / 4])) = [Next]"
    using blocked by (simp add: example_defs ascii_upper_def upper_char_def)
  have b: "\<not> method_gate_blocks ascii_upper (readme_posts_options\<lparr>latency := Some (Fixed (Finite 800))\<rparr>)
       (get_request\<lparr>req_method := Some ''post''\<rparr>) \<and>
     chaosMiddleware ascii_upper (readme_posts_options\<lparr>latency := Some (Fixed (Finite 800))\<rparr>) None
          (get_request\<lparr>req_method := Some ''post''\<rparr>) (world_with [1 / 4]) =
     inject_chaos (readme_posts_options\<lparr>latency := Some (Fixed (Finite 800))\<rparr>)
       (log_activation (readme_posts_options\<lparr>latency := Some (Fixed (Finite 800))\<rparr>)
          (world_with [1 / 4]))"
    using admitted
    by (simp add: example_defs ascii_upper_def upper_char_def activation_gate_blocks_def)
  have c: "fst (inject_chaos (readme_posts_options\<lparr>latency := Some (Fixed (Finite 800))\<rparr>)
       (log_activation (readme_posts_options\<lparr>latency := Some (Fixed (Finite 800))\<rparr>)
          (world_with [1 / 4]))) = [Delay (Finite 800), Next]"
    by (simp add: run_defs example_defs)
  have d: "chaosMiddleware ascii_upper (readme_posts_options\<lparr>methods := Some [''Post'', ''delete'']\<rparr>)
       None (get_request\<lparr>req_method := Some ''post''\<rparr>) (world_with [1 / 4]) =
     chaosMiddleware ascii_upper (readme_posts_options\<lparr>methods := Some [''POST'', ''DELETE'']\<rparr>) None
       (get_request\<lparr>req_method := Some ''POST''\<rparr>) (world_with [1 / 4])"
    using blocked by (simp add: example_defs ascii_upper_def upper_char_def)
  show ?thesis
    using a b c d by simp
qed

text \<open>
  Claim C10. With \<open>options.methods\<close> an empty array the method gate filters nothing:
  the middleware behaves on every request, with or without a method, as it does with
  \<open>options.methods\<close> omitted.
\<close>

theorem empty_methods_no_filter:
  "\<not> method_gate_blocks toUpperCase (options\<lparr>methods := Some []\<rparr>) req \<and>
   chaosMiddleware toUpperCase (options\<lparr>methods := Some []\<rparr>) NODE_ENV req w =
   chaosMiddleware toUpperCase (options\<lparr>methods := None\<rparr>) NODE_ENV req w"
  by (simp add: chaosMiddleware_def method_gate_blocks_def log_activation_upd inject_chaos_upd
      activation_gate_blocks_methods)

theorem empty_methods_no_filter_witness:
  "chaosMiddleware ascii_upper (readme_profile_options\<lparr>methods := Some []\<rparr>) None
       (get_request\<lparr>req_method := None\<rparr>) (world_with [1 / 4]) =
   chaosMiddleware ascii_upper (readme_profile_options\<lparr>methods := None\<rparr>) None
       (get_request\<lparr>req_method := None\<rparr>) (world_with [1 / 4]) \<and>
   fst (chaosMiddleware ascii_upper (readme_profile_options\<lparr>methods := Some []\<rparr>) None
       (get_request\<lparr>req_method := None\<rparr>) (world_with [1 / 4])) =
     [ResStatus (Finite 401), ResJson [(''message'', JString ''Your session has expired. Please log in again.'')]]"
  using empty_methods_no_filter[where toUpperCase = ascii_upper and options = readme_profile_options
      and req = "get_request\<lparr>req_method := None\<rparr>" and NODE_ENV = None
      and w = "world_with [1 / 4]"]
  by (simp add: run_defs gate_defs example_defs)

section \<open>No state across invocations\<close>

lemma latency_ms_samples:
  "shd (rng w) = shd (rng w') \<Longrightarrow> fst (latency_ms l w) = fst (latency_ms l w')"
  by (simp add: latency_ms_def Math_random_def split: latency_option.splits)

lemma inject_latency_samples:
  "shd (rng w) = shd (rng w') \<Longrightarrow> fst (inject_latency lat w) = fst (inject_latency lat w')"
  by (simp add: fst_inject_latency latency_ms_samples[of w w'] split: option.splits)

text \<open>
  Claim C8. The middleware keeps no state across invocations: what an invocation calls
  (error response, delay or plain pass-through, with the status, body and delay length)
  is determined by the options, \<open>NODE_ENV\<close>, the request's method and query, and the
  samples drawn during the invocation: the first, and a second one only when
  \<open>latency\<close> is a pair. Two invocations that agree on these call the same, whatever
  the two worlds have been through before: other requests served, samples consumed,
  lines logged.
\<close>

theorem outcome_function_of_inputs:
  fixes req :: "'a GenericRequest_scheme" and req' :: "'b GenericRequest_scheme"
  assumes "req_method req = req_method req'" and "query req = query req'"
    and "shd (rng w) = shd (rng w')"
    and "(\<exists>min_ms max_ms. latency options = Some (Range min_ms max_ms)) \<longrightarrow>
         shd (stl (rng w)) = shd (stl (rng w'))"
  shows "fst (chaosMiddleware toUpperCase options NODE_ENV req w) =
         fst (chaosMiddleware toUpperCase options NODE_ENV req' w')"
proof -
  have gates: "chaos_applies toUpperCase options NODE_ENV req =
      chaos_applies toUpperCase options NODE_ENV req'"
    by (simp only: chaos_applies_def activation_gate_blocks_def method_gate_blocks_def assms(1,2))
  have lat: "fst (inject_latency (latency options) v) = fst (inject_latency (latency options) v')"
    if "rng v = stl (rng w)" "rng v' = stl (rng w')" for v v'
  proof (cases "latency options")
    case None
    then show ?thesis
      by (simp add: fst_inject_latency)
  next
    case (Some l)
    show ?thesis
    proof (cases l)
      case (Fixed n)
      with Some show ?thesis
        by (simp add: fst_inject_latency latency_ms_def)
    next
      case (Range min_ms max_ms)
      with Some assms(4) that have "shd (rng v) = shd (rng v')"
        by simp
      then show ?thesis
        by (rule inject_latency_samples)
    qed
  qed
  have "fst (inject_latency (latency options) (log_activation options w\<lparr>rng := stl (rng w)\<rparr>)) =
      fst (inject_latency (latency options) (log_activation options w'\<lparr>rng := stl (rng w')\<rparr>))"
    by (rule lat) simp_all
  then show ?thesis
    using assms(3) gates
    by (simp add: fst_chaosMiddleware fst_inject_chaos fst_inject_error rng_log_activation)
qed

text \<open>
  Two invocations under \<open>latency: [800, 1500]\<close> and the README's error options, one in
  a world that has served a request before and logged its error, one in a fresh world,
  on requests that differ outside method and query: the next two samples agree, and so
  do the calls.
\<close>

theorem outcome_function_of_inputs_witness:
  "fst (chaosMiddleware ascii_upper
         (readme_profile_options\<lparr>latency := Some (Range (Finite 800) (Finite 1500))\<rparr>) None get_request
         (snd (serve ascii_upper
            (readme_profile_options\<lparr>latency := Some (Range (Finite 800) (Finite 1500))\<rparr>) None
            [get_request] (world_with [1 / 4, 1 / 4])))) =
   fst (chaosMiddleware ascii_upper
         (readme_profile_options\<lparr>latency := Some (Range (Finite 800) (Finite 1500))\<rparr>) None
         \<lparr>req_method = Some ''GET'', query = None, \<dots> = ''/api/profile''\<rparr>
         (world_with [1 / 4, 0, 1 / 2])) \<and>
   snd (serve ascii_upper
          (readme_profile_options\<lparr>latency := Some (Range (Finite 800) (Finite 1500))\<rparr>) None
          [get_request] (world_with [1 / 4, 1 / 4])) \<noteq>
     world_with [1 / 4, 0, 1 / 2]"
  using outcome_function_of_inputs[where toUpperCase = ascii_upper
      and options = "readme_profile_options\<lparr>latency := Some (Range (Finite 800) (Finite 1500))\<rparr>"
      and NODE_ENV = None and req = get_request
      and req' = "\<lparr>req_method = Some ''GET'', query = None, \<dots> = ''/api/profile''\<rparr>"
      and w = "snd (serve ascii_upper
            (readme_profile_options\<lparr>latency := Some (Range (Finite 800) (Finite 1500))\<rparr>) None
            [get_request] (world_with [1 / 4, 1 / 4]))"
      and w' = "world_with [1 / 4, 0, 1 / 2]"]
  by (simp add: run_defs gate_defs example_defs)

section \<open>The two versions of the middleware\<close>

text \<open>
  Claim C9. For every options object without \<open>error\<close>, \<open>methods\<close> and
  \<open>activationKeyword\<close>, the middleware of src/src/index.ts and the middleware of
  src/unnamed/part_001 behave alike: in the same environment, on the same request and
  with the same samples they make the same calls (\<open>next\<close>, the response status and
  end, the delay) and leave the same world (samples drawn, lines logged).
\<close>

theorem index_equivalent_on_old_options:
  "error options = None \<Longrightarrow> methods options = None \<Longrightarrow> activationKeyword options = None \<Longrightarrow>
   chaosMiddleware toUpperCase options NODE_ENV req w = chaosMiddleware_index options NODE_ENV req w"
  by (simp add: chaosMiddleware_def chaosMiddleware_index_def activation_gate_blocks_def
      method_gate_blocks_def log_activation_def inject_chaos_def inject_error_def
      configured_status_def configured_body_def Let_def split: prod.splits)

theorem index_equivalent_on_old_options_witness:
  "chaosMiddleware ascii_upper (readme_profile_options\<lparr>error := None\<rparr>) None get_request (world_with [1 / 4]) =
   chaosMiddleware_index (readme_profile_options\<lparr>error := None\<rparr>) None get_request
     (world_with [1 / 4]) \<and>
   fst (chaosMiddleware_index (readme_profile_options\<lparr>error := None\<rparr>) None get_request
     (world_with [1 / 4])) = [ResStatus (Finite 500), ResEnd]"
  using index_equivalent_on_old_options[where toUpperCase = ascii_upper
      and options = "readme_profile_options\<lparr>error := None\<rparr>"
      and NODE_ENV = None and req = get_request and w = "world_with [1 / 4]"]
  by (simp add: run_defs gate_defs example_defs)

end
